theory Spec2Isabelle
  imports Complex_Main
begin

section \<open>Quiz lifecycle and attempt scoring of the learning-platform server\<close>

text \<open>
  The repository holds two versions of the quiz code. The quiz controller
  \<^verbatim>\<open>src/controllers/quizController.js\<close> and the attempt controller
  \<^verbatim>\<open>src/controllers/quizAttemptController.js\<close> address the quiz paths \<^verbatim>\<open>courseId\<close>,
  \<^verbatim>\<open>availableFrom\<close>, \<^verbatim>\<open>availableUntil\<close>, \<^verbatim>\<open>isPublished\<close> and a \<^verbatim>\<open>Mixed\<close> correct answer;
  the one schema that declares these paths is the quiz schema with
  \<^verbatim>\<open>enum: ["single-choice", "multiple-choice", "true-false", "short-answer"]\<close>. The first
  part of the development embeds these two controllers over that schema and over
  \<^verbatim>\<open>models/QuizAttempt.js\<close>. The schema \<^verbatim>\<open>models/Quiz.js\<close>, with the stored totals and the
  pre-save hook that maintains them, belongs to the other quiz controller (the file that
  starts \<^verbatim>\<open>// controllers/quizController.js\<close> and requires \<^verbatim>\<open>../models/User\<close>); the last
  part embeds that pair.

  Conventions of the embedding:
  \<^item> a Mongoose document is a record; record fields carry a short prefix where two
    documents of the source use the same field name (\<^verbatim>\<open>opt_\<close> option, \<^verbatim>\<open>q_\<close> question,
    \<^verbatim>\<open>aa_\<close> stored attempt answer, \<^verbatim>\<open>att_\<close> attempt, \<^verbatim>\<open>sum_\<close> response summary, \<^verbatim>\<open>d_\<close>
    documents of \<^verbatim>\<open>models/Quiz.js\<close>, \<^verbatim>\<open>u_\<close> update body);
  \<^item> object ids are natural numbers, dates are integers (milliseconds since the epoch),
    \<^verbatim>\<open>new Date()\<close> is a parameter \<open>now\<close>;
  \<^item> point values are natural numbers, percentages are rationals (the source computes
    them in double precision; the model computes them exactly);
  \<^item> every early \<^verbatim>\<open>return res.status(4xx)\<close> and every exception that reaches the
    \<^verbatim>\<open>catch\<close> block (answered with status 500) is a value of \<open>http_error\<close>;
  \<^item> the document store is a record of lists, passed in and returned.
\<close>

subsection \<open>Data model\<close>

text \<open>A JSON scalar as a request body or a \<^verbatim>\<open>Mixed\<close> path holds it, or nothing, and a
  value that may also be an array of scalars.\<close>

datatype jsval = Undefined | Null | Bool bool | Num int | Str string

datatype jsfield = Val jsval | Arr "jsval list"

datatype qtype = SingleChoice | MultipleChoice | TrueFalse | ShortAnswer

datatype attempt_status = InProgress | Completed | Abandoned

datatype quiz_status = Disabled | Draft | Scheduled | Expired | Active

datatype http_error =
  NotFound string | BadRequest string | Forbidden string | ServerError string

record option_doc =
  opt_text :: string
  isCorrect :: bool

record question =
  q_id :: nat
  q_question :: string
  q_type :: qtype
  q_options :: "option_doc list"
  q_correctAnswer :: jsval
  q_points :: nat

text \<open>The quiz of the schema the two controllers address. It declares no path
  \<^verbatim>\<open>totalQuestions\<close>, \<^verbatim>\<open>totalPoints\<close> or \<^verbatim>\<open>publishedAt\<close> and no hook.\<close>

record quiz =
  quiz_id :: nat
  title :: string
  description :: "string option"
  courseId :: nat
  moduleId :: "nat option"
  duration :: nat
  passingScore :: rat
  maxAttempts :: nat
  instructions :: "string option"
  tags :: "string list"
  availableFrom :: int
  availableUntil :: "int option"
  questions :: "question list"
  isPublished :: bool
  isActive :: bool

text \<open>One element of the \<^verbatim>\<open>answers\<close> array of a submit request, an object. The controller works on
  \<^verbatim>\<open>selectedOptions\<close> and \<^verbatim>\<open>shortAnswer\<close> as they were sent, before any cast: the first is
  a scalar or an array of scalars, the second a scalar. A question id that is missing or
  malformed finds no question, as an unknown id does. \<^verbatim>\<open>timeTaken\<close> is a number or
  absent.\<close>

record answer =
  questionId :: nat
  selectedOptions :: jsfield
  shortAnswer :: jsval
  timeTaken :: "nat option"

text \<open>\<^verbatim>\<open>attemptAnswerSchema\<close>: one scored answer stored in an attempt. The two answer
  fields are kept as they were sent; their cast to the declared types on save (an array
  of strings, a string), which no modelled code reads, is left out.\<close>

record attemptAnswer =
  aa_questionId :: nat
  aa_selectedOptions :: jsfield
  aa_shortAnswer :: jsval
  aa_isCorrect :: bool
  pointsEarned :: nat
  aa_timeTaken :: nat

text \<open>\<^verbatim>\<open>quizAttemptSchema\<close>.\<close>

record quizAttempt =
  att_id :: nat
  att_quizId :: nat
  att_userId :: nat
  att_courseId :: nat
  answers :: "attemptAnswer list"
  score :: nat
  att_totalPoints :: nat
  percentage :: rat
  isPassed :: bool
  timeStarted :: int
  timeCompleted :: "int option"
  timeSpent :: int
  attemptNumber :: nat
  status :: attempt_status
  ipAddress :: string
  userAgent :: string

text \<open>The document store: the two collections the controllers query, and the next fresh
  object id.\<close>

record store =
  quizzes :: "quiz list"
  attempts :: "quizAttempt list"
  nextId :: nat

subsection \<open>Derived quiz status (\<^verbatim>\<open>getQuizStatus\<close>)\<close>

text \<open>
  \<^verbatim>\<open>
  if (!quiz.isActive) return "disabled";
  if (!quiz.isPublished) return "draft";
  if (now < new Date(quiz.availableFrom)) return "scheduled";
  if (quiz.availableUntil && now > new Date(quiz.availableUntil)) return "expired";
  return "active";
  \<close>
\<close>

definition getQuizStatus :: "int \<Rightarrow> quiz \<Rightarrow> quiz_status" where
  "getQuizStatus now qz =
     (if \<not> isActive qz then Disabled
      else if \<not> isPublished qz then Draft
      else if now < availableFrom qz then Scheduled
      else (case availableUntil qz of
              Some u \<Rightarrow> if now > u then Expired else Active
            | None \<Rightarrow> Active))"

subsection \<open>JavaScript helpers\<close>

text \<open>Truthiness of a value, as \<^verbatim>\<open>!v\<close> and \<^verbatim>\<open>v || d\<close> test it.\<close>

fun truthy :: "jsval \<Rightarrow> bool" where
  "truthy Undefined = False"
| "truthy Null = False"
| "truthy (Bool b) = b"
| "truthy (Num n) = (n \<noteq> 0)"
| "truthy (Str s) = (s \<noteq> [])"

text \<open>\<^verbatim>\<open>String.prototype.toLowerCase\<close> and \<^verbatim>\<open>trim\<close> on the ASCII range: letters
  \<^verbatim>\<open>A\<close>..\<^verbatim>\<open>Z\<close> are mapped to \<^verbatim>\<open>a\<close>..\<^verbatim>\<open>z\<close>; white space is the blank and the
  control characters 9 to 13.\<close>

definition lowerChar :: "char \<Rightarrow> char" where
  "lowerChar c =
     (let n = (of_char c :: nat) in if 65 \<le> n \<and> n \<le> 90 then char_of (n + 32) else c)"

definition toLowerCase :: "string \<Rightarrow> string" where
  "toLowerCase s = map lowerChar s"

definition isWhiteSpace :: "char \<Rightarrow> bool" where
  "isWhiteSpace c = (let n = (of_char c :: nat) in n = 32 \<or> (9 \<le> n \<and> n \<le> 13))"

definition trim :: "string \<Rightarrow> string" where
  "trim s = rev (dropWhile isWhiteSpace (rev (dropWhile isWhiteSpace s)))"

text \<open>\<^verbatim>\<open>Math.round\<close>: the nearest integer, halves rounded up.\<close>

definition mathRound :: "rat \<Rightarrow> int" where
  "mathRound x = \<lfloor>x + 1 / 2\<rfloor>"

subsection \<open>Attempts: the pre-save hook of \<^verbatim>\<open>quizAttemptSchema\<close>\<close>

text \<open>
  \<^verbatim>\<open>
  if (this.answers.length > 0) {
    this.totalPoints = this.answers.reduce((total, answer) => total + answer.pointsEarned, 0);
    const totalPossiblePoints = this.answers.reduce((total, answer) => {
      const question = this.answers.find(a => a.questionId.equals(answer.questionId));
      return total + (question ? question.pointsEarned : 0);
    }, 0);
    if (totalPossiblePoints > 0)
      this.percentage = Math.round((this.totalPoints / totalPossiblePoints) * 100);
  }
  if (this.timeStarted && this.timeCompleted)
    this.timeSpent = Math.floor((this.timeCompleted - this.timeStarted) / 1000);
  \<close>
  \<^verbatim>\<open>reduce\<close> is \<open>foldl\<close>, \<^verbatim>\<open>Array.prototype.find\<close> is \<open>List.find\<close> (the first match).
\<close>

definition earnedPoints :: "attemptAnswer list \<Rightarrow> nat" where
  "earnedPoints as = foldl (\<lambda>total a. total + pointsEarned a) 0 as"

definition totalPossiblePoints :: "attemptAnswer list \<Rightarrow> nat" where
  "totalPossiblePoints as =
     foldl (\<lambda>total a.
              total + (case List.find (\<lambda>x. aa_questionId x = aa_questionId a) as of
                         Some question \<Rightarrow> pointsEarned question
                       | None \<Rightarrow> 0))
           0 as"

definition attemptPreSave :: "quizAttempt \<Rightarrow> quizAttempt" where
  "attemptPreSave this =
     (let this1 =
        (if length (answers this) > 0 then
           (let this' = this\<lparr>att_totalPoints := earnedPoints (answers this)\<rparr>;
                possible = totalPossiblePoints (answers this)
            in if possible > 0
               then this'\<lparr>percentage :=
                            of_int (mathRound (of_nat (att_totalPoints this') / of_nat possible * 100))\<rparr>
               else this')
         else this)
      in case timeCompleted this1 of
           Some completed \<Rightarrow> this1\<lparr>timeSpent := (completed - timeStarted this1) div 1000\<rparr>
         | None \<Rightarrow> this1)"

subsection \<open>Attempts: \<^verbatim>\<open>startQuizAttempt\<close>\<close>

record quizInfo =
  qi_title :: string
  qi_duration :: nat
  qi_totalQuestions :: nat
  qi_passingScore :: rat

datatype start_response = Resumed quizAttempt | Started quizAttempt quizInfo

text \<open>\<^verbatim>\<open>Quiz.findById\<close>, and the two attempt queries of the controller.\<close>

definition findQuizById :: "store \<Rightarrow> nat \<Rightarrow> quiz option" where
  "findQuizById st quizId = List.find (\<lambda>q. quiz_id q = quizId) (quizzes st)"

definition findAttempts :: "store \<Rightarrow> nat \<Rightarrow> nat \<Rightarrow> quizAttempt list" where
  "findAttempts st quizId userId =
     filter (\<lambda>a. att_quizId a = quizId \<and> att_userId a = userId) (attempts st)"

definition findInProgress :: "store \<Rightarrow> nat \<Rightarrow> nat \<Rightarrow> quizAttempt option" where
  "findInProgress st quizId userId =
     List.find (\<lambda>a. att_quizId a = quizId \<and> att_userId a = userId \<and> status a = InProgress)
       (attempts st)"

text \<open>\<^verbatim>\<open>QuizAttempt.create\<close>: the schema defaults fill the fields the controller does not
  give, the pre-save hook runs, and the document is inserted under a fresh id.\<close>

definition createAttempt ::
  "store \<Rightarrow> int \<Rightarrow> nat \<Rightarrow> nat \<Rightarrow> nat \<Rightarrow> nat \<Rightarrow> string \<Rightarrow> string \<Rightarrow> quizAttempt \<times> store" where
  "createAttempt st now quizId userId cId number ip ua =
     (let doc = attemptPreSave
                  \<lparr>att_id = nextId st, att_quizId = quizId, att_userId = userId,
                   att_courseId = cId, answers = [], score = 0, att_totalPoints = 0,
                   percentage = 0, isPassed = False, timeStarted = now,
                   timeCompleted = None, timeSpent = 0, attemptNumber = number,
                   status = InProgress, ipAddress = ip, userAgent = ua\<rparr>
      in (doc, st\<lparr>attempts := attempts st @ [doc], nextId := nextId st + 1\<rparr>))"

text \<open>The controller, check by check in the order of the source: quiz missing (404); quiz
  inactive or unpublished (400); attempt limit reached (400); an in-progress attempt is
  resumed; otherwise a new attempt is created. The message of the limit error leaves out
  the number the source interpolates.\<close>

definition startQuizAttempt ::
  "store \<Rightarrow> int \<Rightarrow> nat \<Rightarrow> nat \<Rightarrow> string \<Rightarrow> string \<Rightarrow> (http_error + start_response) \<times> store" where
  "startQuizAttempt st now quizId userId ip ua =
     (case findQuizById st quizId of
        None \<Rightarrow> (Inl (NotFound ''Quiz not found''), st)
      | Some qz \<Rightarrow>
          if \<not> isActive qz \<or> \<not> isPublished qz
          then (Inl (BadRequest ''Quiz is not available''), st)
          else
            (let previousAttempts = findAttempts st quizId userId in
             if length previousAttempts \<ge> maxAttempts qz
             then (Inl (BadRequest ''Maximum attempts reached for this quiz''), st)
             else
               (case findInProgress st quizId userId of
                  Some inProgressAttempt \<Rightarrow> (Inr (Resumed inProgressAttempt), st)
                | None \<Rightarrow>
                    (let attemptNumber = length previousAttempts + 1;
                         (attempt, st') = createAttempt st now quizId userId (courseId qz)
                                            attemptNumber ip ua
                     in (Inr (Started attempt
                                \<lparr>qi_title = title qz, qi_duration = duration qz,
                                 qi_totalQuestions = length (questions qz),
                                 qi_passingScore = passingScore qz\<rparr>), st')))))"

subsection \<open>Attempts: \<^verbatim>\<open>submitQuizAttempt\<close>\<close>

text \<open>
  Scoring of one submitted answer against the question it matched. Choice types:
  \<^verbatim>\<open>
  const selectedOptions = answer.selectedOptions || [];
  const correctOptions = question.options.filter(opt => opt.isCorrect).map(opt => opt.text);
  isCorrect = selectedOptions.length === correctOptions.length &&
    selectedOptions.every(opt => correctOptions.includes(opt));
  pointsEarned = isCorrect ? question.points : 0;
  \<close>
  A falsy value is replaced by the empty array. On an array, \<^verbatim>\<open>includes\<close> finds an
  element that is one of the correct texts, a string. A non-empty string has a length but
  no \<^verbatim>\<open>every\<close>: when its length is the number of correct options the call throws a
  \<^verbatim>\<open>TypeError\<close>, otherwise the conjunction is false before the call. A number or a boolean
  has no length, so the comparison is false.
\<close>

definition correctOptions :: "question \<Rightarrow> string list" where
  "correctOptions q = map opt_text (filter isCorrect (q_options q))"

definition orEmptyArray :: "jsfield \<Rightarrow> jsfield" where
  "orEmptyArray f = (case f of Val v \<Rightarrow> if truthy v then Val v else Arr [] | Arr xs \<Rightarrow> Arr xs)"

definition choiceCorrect :: "question \<Rightarrow> answer \<Rightarrow> http_error + bool" where
  "choiceCorrect q a =
     (case orEmptyArray (selectedOptions a) of
        Arr xs \<Rightarrow>
          Inr (length xs = length (correctOptions q) \<and>
               list_all (\<lambda>opt. opt \<in> set (map Str (correctOptions q))) xs)
      | Val v \<Rightarrow>
          (case v of
             Str s \<Rightarrow> if length s = length (correctOptions q)
                      then Inl (ServerError ''Server error'') else Inr False
           | _ \<Rightarrow> Inr False))"

text \<open>
  True-false and short-answer:
  \<^verbatim>\<open>
  isCorrect = answer.shortAnswer?.toLowerCase().trim()
              === question.correctAnswer.toLowerCase().trim();
  \<close>
  The left operand is \<^verbatim>\<open>undefined\<close> for a missing or null answer, the trimmed lower-case
  text for a string, and throws a \<^verbatim>\<open>TypeError\<close> for a number or a boolean; the right operand
  throws unless the stored correct answer is a string. Both errors reach the same
  \<^verbatim>\<open>catch\<close> block.
\<close>

definition optionalLowerTrim :: "jsval \<Rightarrow> http_error + string option" where
  "optionalLowerTrim v =
     (case v of
        Undefined \<Rightarrow> Inr None
      | Null \<Rightarrow> Inr None
      | Str s \<Rightarrow> Inr (Some (trim (toLowerCase s)))
      | _ \<Rightarrow> Inl (ServerError ''Server error''))"

definition scoreAnswer :: "question \<Rightarrow> answer \<Rightarrow> http_error + (bool \<times> nat)" where
  "scoreAnswer q a =
     (if q_type q = MultipleChoice \<or> q_type q = SingleChoice then
        (case choiceCorrect q a of
           Inl e \<Rightarrow> Inl e
         | Inr c \<Rightarrow> Inr (c, if c then q_points q else 0))
      else if q_type q = TrueFalse \<or> q_type q = ShortAnswer then
        (case optionalLowerTrim (shortAnswer a) of
           Inl e \<Rightarrow> Inl e
         | Inr given \<Rightarrow>
             (case q_correctAnswer q of
                Str s \<Rightarrow>
                  (let c = (given = Some (trim (toLowerCase s)))
                   in Inr (c, if c then q_points q else 0))
              | _ \<Rightarrow> Inl (ServerError ''Server error'')))
      else Inr (False, 0))"

text \<open>\<^verbatim>\<open>quiz.questions.id(answer.questionId)\<close>: the question with that id, if any.\<close>

definition questionById :: "question list \<Rightarrow> nat \<Rightarrow> question option" where
  "questionById qs i = List.find (\<lambda>q. q_id q = i) qs"

text \<open>The loop over the submitted answers, with its two accumulators
  \<^verbatim>\<open>processedAnswers\<close> and \<^verbatim>\<open>totalScore\<close>; an answer that matches no question is skipped
  (\<^verbatim>\<open>continue\<close>).\<close>

fun processAnswers ::
  "question list \<Rightarrow> answer list \<Rightarrow> attemptAnswer list \<Rightarrow> nat
     \<Rightarrow> http_error + (attemptAnswer list \<times> nat)" where
  "processAnswers qs [] processedAnswers totalScore = Inr (processedAnswers, totalScore)"
| "processAnswers qs (a # as) processedAnswers totalScore =
     (case questionById qs (questionId a) of
        None \<Rightarrow> processAnswers qs as processedAnswers totalScore
      | Some q \<Rightarrow>
          (case scoreAnswer q a of
             Inl e \<Rightarrow> Inl e
           | Inr (c, p) \<Rightarrow>
               processAnswers qs as
                 (processedAnswers @
                    [\<lparr>aa_questionId = questionId a, aa_selectedOptions = selectedOptions a,
                      aa_shortAnswer = shortAnswer a, aa_isCorrect = c, pointsEarned = p,
                      aa_timeTaken = (case timeTaken a of Some t \<Rightarrow> t | None \<Rightarrow> 0)\<rparr>])
                 (totalScore + p)))"

record summary =
  sum_score :: nat
  sum_totalPoints :: nat
  sum_percentage :: int
  sum_isPassed :: bool
  sum_passingScore :: rat
  sum_correctAnswers :: nat
  sum_totalQuestions :: nat

record submit_response =
  data :: quizAttempt
  summary :: summary

text \<open>\<^verbatim>\<open>quiz.questions.reduce((sum, q) => sum + q.points, 0)\<close>.\<close>

definition questionPoints :: "question list \<Rightarrow> nat" where
  "questionPoints qs = foldl (\<lambda>sum q. sum + q_points q) 0 qs"

text \<open>\<^verbatim>\<open>attempt.save()\<close>: the pre-save hook runs and the stored document with the
  attempt's id is replaced.\<close>

definition saveAttempt :: "store \<Rightarrow> quizAttempt \<Rightarrow> quizAttempt \<times> store" where
  "saveAttempt st attempt =
     (let saved = attemptPreSave attempt
      in (saved, st\<lparr>attempts := map (\<lambda>a. if att_id a = att_id saved then saved else a)
                                     (attempts st)\<rparr>))"

text \<open>The controller: the in-progress attempt is looked up first, then the quiz; the
  answers are scored; the attempt is completed, saved, and read back for the response
  (the summary reads \<^verbatim>\<open>attempt.percentage\<close> after the save). The \<^verbatim>\<open>answers\<close> of the body
  are \<open>None\<close> when the request carries no array there: \<^verbatim>\<open>for (const answer of answers)\<close>
  then throws.\<close>

definition submitQuizAttempt ::
  "store \<Rightarrow> int \<Rightarrow> nat \<Rightarrow> nat \<Rightarrow> answer list option
     \<Rightarrow> (http_error + submit_response) \<times> store" where
  "submitQuizAttempt st now quizId userId body_answers =
     (case findInProgress st quizId userId of
        None \<Rightarrow> (Inl (NotFound ''No active quiz attempt found''), st)
      | Some attempt \<Rightarrow>
          (case findQuizById st quizId of
             None \<Rightarrow> (Inl (NotFound ''Quiz not found''), st)
           | Some qz \<Rightarrow>
               (case body_answers of
                  None \<Rightarrow> (Inl (ServerError ''Server error''), st)
                | Some submitted \<Rightarrow>
               (case processAnswers (questions qz) submitted [] 0 of
                  Inl e \<Rightarrow> (Inl e, st)
                | Inr (processedAnswers, totalScore) \<Rightarrow>
                    (let totalPts = questionPoints (questions qz);
                         pct = (if totalPts > 0
                                then of_nat totalScore / of_nat totalPts * 100 else 0);
                         attempt1 = attempt\<lparr>answers := processedAnswers, status := Completed,
                                      timeCompleted := Some now, score := totalScore,
                                      percentage := pct,
                                      isPassed := (pct \<ge> passingScore qz)\<rparr>;
                         (saved, st') = saveAttempt st attempt1
                     in (Inr \<lparr>data = saved,
                              summary =
                                \<lparr>sum_score = score saved, sum_totalPoints = totalPts,
                                 sum_percentage = mathRound (percentage saved),
                                 sum_isPassed = isPassed saved,
                                 sum_passingScore = passingScore qz,
                                 sum_correctAnswers = length (filter aa_isCorrect processedAnswers),
                                 sum_totalQuestions = length processedAnswers\<rparr>\<rparr>, st'))))))"

subsection \<open>Quizzes: \<^verbatim>\<open>publishQuiz\<close>\<close>

text \<open>
  The predicate of \<^verbatim>\<open>quiz.questions.filter\<close> that selects the invalid questions:
  \<^verbatim>\<open>
  if (q.type === "multiple-choice" || q.type === "single-choice")
    return !q.options || q.options.length < 2 || !q.correctAnswer;
  if (q.type === "true-false") return q.correctAnswer === undefined;
  if (q.type === "short-answer") return !q.correctAnswer || q.correctAnswer.trim() === "";
  return false;
  \<close>
  The \<^verbatim>\<open>options\<close> array of a stored question always exists. \<^verbatim>\<open>trim\<close> on a truthy
  value that is not a string throws.
\<close>

definition needsCorrectAnswerText :: "jsval \<Rightarrow> http_error + bool" where
  "needsCorrectAnswerText v =
     (if \<not> truthy v then Inr True
      else (case v of Str s \<Rightarrow> Inr (trim s = []) | _ \<Rightarrow> Inl (ServerError ''Server error'')))"

definition questionInvalid :: "question \<Rightarrow> http_error + bool" where
  "questionInvalid q =
     (if q_type q = MultipleChoice \<or> q_type q = SingleChoice
      then Inr (length (q_options q) < 2 \<or> \<not> truthy (q_correctAnswer q))
      else if q_type q = TrueFalse then Inr (q_correctAnswer q = Undefined)
      else if q_type q = ShortAnswer then needsCorrectAnswerText (q_correctAnswer q)
      else Inr False)"

fun invalidQuestions :: "question list \<Rightarrow> http_error + question list" where
  "invalidQuestions [] = Inr []"
| "invalidQuestions (q # qs) =
     (case questionInvalid q of
        Inl e \<Rightarrow> Inl e
      | Inr bad \<Rightarrow>
          (case invalidQuestions qs of
             Inl e \<Rightarrow> Inl e
           | Inr rest \<Rightarrow> Inr (if bad then q # rest else rest)))"

text \<open>
  Mongoose validates a document against its schema when it is saved and throws on
  failure; the controller answers 500. The validators are a parameter \<open>valid\<close> of
  \<open>publishQuiz\<close>. \<open>quizSchemaValid\<close> collects the validators the schema declares on the
  paths of the model: title required, at most 200 characters; description at most 1000;
  duration 1 to 300; passing score 0 to 100; at least one attempt; per question: text
  required, at least one point, and a correct answer that is neither \<^verbatim>\<open>undefined\<close> nor
  \<^verbatim>\<open>null\<close> unless the type is multiple-choice. The type is one of the four enumerated
  values by the type of the field. (The schema asks for an option's text through a
  function that reads \<^verbatim>\<open>this.type\<close> of the option, which an option does not have.)
\<close>

definition questionSchemaValid :: "question \<Rightarrow> bool" where
  "questionSchemaValid q =
     (q_question q \<noteq> [] \<and> 1 \<le> q_points q \<and>
      (q_type q = MultipleChoice \<or>
       (q_correctAnswer q \<noteq> Undefined \<and> q_correctAnswer q \<noteq> Null)))"

definition quizSchemaValid :: "quiz \<Rightarrow> bool" where
  "quizSchemaValid qz =
     (title qz \<noteq> [] \<and> length (title qz) \<le> 200 \<and>
      (case description qz of Some d \<Rightarrow> length d \<le> 1000 | None \<Rightarrow> True) \<and>
      1 \<le> duration qz \<and> duration qz \<le> 300 \<and>
      0 \<le> passingScore qz \<and> passingScore qz \<le> 100 \<and>
      1 \<le> maxAttempts qz \<and>
      list_all questionSchemaValid (questions qz))"

text \<open>\<^verbatim>\<open>quiz.save()\<close>: the stored document with the quiz's id is replaced. The schema has
  no pre-save hook.\<close>

definition replaceQuiz :: "store \<Rightarrow> quiz \<Rightarrow> store" where
  "replaceQuiz st qz =
     st\<lparr>quizzes := map (\<lambda>q. if quiz_id q = quiz_id qz then qz else q) (quizzes st)\<rparr>"

definition saveQuiz :: "(quiz \<Rightarrow> bool) \<Rightarrow> store \<Rightarrow> quiz \<Rightarrow> http_error + store" where
  "saveQuiz valid st qz =
     (if valid qz then Inr (replaceQuiz st qz) else Inl (ServerError ''Server error''))"

text \<open>
  The controller: quiz missing (404); no questions (400); some question invalid (400);
  otherwise
  \<^verbatim>\<open>
  quiz.isPublished = true;
  quiz.publishedAt = new Date();
  await quiz.save();
  const populatedQuiz = await Quiz.findById(id).populate("courseId", "title code");
  \<close>
  The schema declares no path \<^verbatim>\<open>publishedAt\<close>: the assignment sets a property of the
  object in memory that \<^verbatim>\<open>save()\<close> does not write. The response carries the document read
  back from the store, so no publish time is stored or returned.
\<close>

definition publishQuiz ::
  "(quiz \<Rightarrow> bool) \<Rightarrow> store \<Rightarrow> nat \<Rightarrow> (http_error + quiz option) \<times> store" where
  "publishQuiz valid st ident =
     (case findQuizById st ident of
        None \<Rightarrow> (Inl (NotFound ''Quiz not found''), st)
      | Some qz \<Rightarrow>
          if length (questions qz) = 0
          then (Inl (BadRequest ''Cannot publish quiz without questions''), st)
          else
            (case invalidQuestions (questions qz) of
               Inl e \<Rightarrow> (Inl e, st)
             | Inr bad \<Rightarrow>
                 if length bad > 0
                 then (Inl (BadRequest ''Some questions are incomplete or invalid''), st)
                 else (case saveQuiz valid st (qz\<lparr>isPublished := True\<rparr>) of
                         Inl e \<Rightarrow> (Inl e, st)
                       | Inr st' \<Rightarrow> (Inr (findQuizById st' ident), st'))))"

section \<open>The quiz documents of \<^verbatim>\<open>models/Quiz.js\<close> and their update\<close>

text \<open>
  \<^verbatim>\<open>models/Quiz.js\<close> declares the stored totals and the hook that maintains them. Its
  controller is the one that addresses the paths \<^verbatim>\<open>course\<close> and \<^verbatim>\<open>instructor\<close> and
  authorises through \<^verbatim>\<open>req.user\<close>. The time stamps that mongoose maintains are left out
  of the records.
\<close>

datatype doc_qtype = DocMultipleChoice | DocTrueFalse | DocShortAnswer | DocEssay

record questionDoc =
  d_text :: string
  d_type :: doc_qtype
  d_points :: nat
  d_options :: "option_doc list"
  d_correctAnswer :: "string option"
  d_explanation :: "string option"
  d_order :: nat

record quizDoc =
  doc_id :: nat
  d_title :: string
  d_description :: "string option"
  course :: nat
  d_module :: "nat option"
  instructor :: nat
  d_duration :: nat
  d_passingScore :: rat
  d_maxAttempts :: nat
  d_isActive :: bool
  shuffleQuestions :: bool
  showResults :: bool
  scheduledStart :: "int option"
  scheduledEnd :: "int option"
  d_questions :: "questionDoc list"
  totalQuestions :: nat
  totalPoints :: nat
  averageScore :: rat
  totalAttempts :: nat
  enrolledStudents :: "nat list"

text \<open>
  The hook, commented in the source as "Calculate total questions and points before
  saving":
  \<^verbatim>\<open>
  quizSchema.pre('save', function(next) {
    this.totalQuestions = this.questions.length;
    this.totalPoints = this.questions.reduce((sum, question) => sum + question.points, 0);
    next();
  });
  \<close>
  It runs on \<^verbatim>\<open>save()\<close> and on \<^verbatim>\<open>Quiz.create\<close>, which saves the new document.
\<close>

definition quizPreSave :: "quizDoc \<Rightarrow> quizDoc" where
  "quizPreSave this =
     this\<lparr>totalQuestions := length (d_questions this),
          totalPoints := foldl (\<lambda>sum question. sum + d_points question) 0 (d_questions this)\<rparr>"

text \<open>\<^verbatim>\<open>req.user\<close>, and the body of an update request: one optional entry per path of
  the schema (\<open>None\<close>: the key is absent), of the type the schema declares for the path;
  the three paths that accept \<^verbatim>\<open>null\<close> hold an optional value.\<close>

record reqUser =
  role :: string
  user_id :: nat

record updateBody =
  u_title :: "string option"
  u_description :: "string option"
  u_course :: "nat option"
  u_module :: "nat option option"
  u_instructor :: "nat option"
  u_duration :: "nat option"
  u_passingScore :: "rat option"
  u_maxAttempts :: "nat option"
  u_isActive :: "bool option"
  u_shuffleQuestions :: "bool option"
  u_showResults :: "bool option"
  u_scheduledStart :: "int option option"
  u_scheduledEnd :: "int option option"
  u_questions :: "questionDoc list option"
  u_totalQuestions :: "nat option"
  u_totalPoints :: "nat option"
  u_averageScore :: "rat option"
  u_totalAttempts :: "nat option"
  u_enrolledStudents :: "nat list option"

text \<open>The cast of the body to the schema: the string paths declared with
  \<^verbatim>\<open>trim: true\<close> are trimmed.\<close>

definition castQuestion :: "questionDoc \<Rightarrow> questionDoc" where
  "castQuestion q =
     q\<lparr>d_text := trim (d_text q),
       d_options := map (\<lambda>opt. opt\<lparr>opt_text := trim (opt_text opt)\<rparr>) (d_options q),
       d_correctAnswer := map_option trim (d_correctAnswer q),
       d_explanation := map_option trim (d_explanation q)\<rparr>"

definition castUpdate :: "updateBody \<Rightarrow> updateBody" where
  "castUpdate u =
     u\<lparr>u_title := map_option trim (u_title u),
       u_description := map_option trim (u_description u),
       u_questions := map_option (map castQuestion) (u_questions u)\<rparr>"

text \<open>
  \<^verbatim>\<open>runValidators: true\<close> runs the validators the schema declares on the paths of the
  body: title required; duration and attempt limit at least 1; passing score 0 to 100;
  per question a text, at least one point, and a text for every option. They are a
  parameter \<open>valid\<close> of the update; \<open>updateBodyValid\<close> is this list.
\<close>

definition questionDocValid :: "questionDoc \<Rightarrow> bool" where
  "questionDocValid q =
     (d_text q \<noteq> [] \<and> 1 \<le> d_points q \<and> list_all (\<lambda>opt. opt_text opt \<noteq> []) (d_options q))"

definition updateBodyValid :: "updateBody \<Rightarrow> bool" where
  "updateBodyValid u =
     ((case u_title u of Some t \<Rightarrow> t \<noteq> [] | None \<Rightarrow> True) \<and>
      (case u_duration u of Some d \<Rightarrow> 1 \<le> d | None \<Rightarrow> True) \<and>
      (case u_passingScore u of Some p \<Rightarrow> 0 \<le> p \<and> p \<le> 100 | None \<Rightarrow> True) \<and>
      (case u_maxAttempts u of Some m \<Rightarrow> 1 \<le> m | None \<Rightarrow> True) \<and>
      (case u_questions u of Some qs \<Rightarrow> list_all questionDocValid qs | None \<Rightarrow> True))"

text \<open>The store update of \<^verbatim>\<open>Quiz.findByIdAndUpdate\<close>: every key of the body overwrites
  the stored path. It writes to the collection directly; the document is not saved and
  the pre-save hook does not run.\<close>

definition applyUpdate :: "quizDoc \<Rightarrow> updateBody \<Rightarrow> quizDoc" where
  "applyUpdate d u =
     d\<lparr>d_title := (case u_title u of Some v \<Rightarrow> v | None \<Rightarrow> d_title d),
       d_description := (case u_description u of Some v \<Rightarrow> Some v | None \<Rightarrow> d_description d),
       course := (case u_course u of Some v \<Rightarrow> v | None \<Rightarrow> course d),
       d_module := (case u_module u of Some v \<Rightarrow> v | None \<Rightarrow> d_module d),
       instructor := (case u_instructor u of Some v \<Rightarrow> v | None \<Rightarrow> instructor d),
       d_duration := (case u_duration u of Some v \<Rightarrow> v | None \<Rightarrow> d_duration d),
       d_passingScore := (case u_passingScore u of Some v \<Rightarrow> v | None \<Rightarrow> d_passingScore d),
       d_maxAttempts := (case u_maxAttempts u of Some v \<Rightarrow> v | None \<Rightarrow> d_maxAttempts d),
       d_isActive := (case u_isActive u of Some v \<Rightarrow> v | None \<Rightarrow> d_isActive d),
       shuffleQuestions := (case u_shuffleQuestions u of Some v \<Rightarrow> v | None \<Rightarrow> shuffleQuestions d),
       showResults := (case u_showResults u of Some v \<Rightarrow> v | None \<Rightarrow> showResults d),
       scheduledStart := (case u_scheduledStart u of Some v \<Rightarrow> v | None \<Rightarrow> scheduledStart d),
       scheduledEnd := (case u_scheduledEnd u of Some v \<Rightarrow> v | None \<Rightarrow> scheduledEnd d),
       d_questions := (case u_questions u of Some v \<Rightarrow> v | None \<Rightarrow> d_questions d),
       totalQuestions := (case u_totalQuestions u of Some v \<Rightarrow> v | None \<Rightarrow> totalQuestions d),
       totalPoints := (case u_totalPoints u of Some v \<Rightarrow> v | None \<Rightarrow> totalPoints d),
       averageScore := (case u_averageScore u of Some v \<Rightarrow> v | None \<Rightarrow> averageScore d),
       totalAttempts := (case u_totalAttempts u of Some v \<Rightarrow> v | None \<Rightarrow> totalAttempts d),
       enrolledStudents := (case u_enrolledStudents u of Some v \<Rightarrow> v | None \<Rightarrow> enrolledStudents d)\<rparr>"

text \<open>
  The controller \<^verbatim>\<open>updateQuiz\<close> of this pair:
  \<^verbatim>\<open>
  let quiz = await Quiz.findById(req.params.id);
  if (!quiz) return res.status(404) ...
  if (req.user.role !== 'admin' && quiz.instructor.toString() !== req.user.id)
    return res.status(403) ...
  if (req.body.questions && req.body.questions.length > 30) return res.status(400) ...
  quiz = await Quiz.findByIdAndUpdate(req.params.id,
    { ...req.body, updatedAt: Date.now() }, { new: true, runValidators: true })
  \<close>
  and the updated document is the response.
\<close>

definition updateQuiz ::
  "(updateBody \<Rightarrow> bool) \<Rightarrow> reqUser \<Rightarrow> quizDoc list \<Rightarrow> nat \<Rightarrow> updateBody
     \<Rightarrow> (http_error + quizDoc) \<times> quizDoc list" where
  "updateQuiz valid user docs ident body =
     (case List.find (\<lambda>d. doc_id d = ident) docs of
        None \<Rightarrow> (Inl (NotFound ''Quiz not found''), docs)
      | Some quiz \<Rightarrow>
          if role user \<noteq> ''admin'' \<and> instructor quiz \<noteq> user_id user
          then (Inl (Forbidden ''Not authorized to update this quiz''), docs)
          else if (case u_questions body of Some qs \<Rightarrow> length qs > 30 | None \<Rightarrow> False)
          then (Inl (BadRequest ''Maximum 30 questions allowed''), docs)
          else
            (let sent = castUpdate body in
             if valid sent
             then (let updated = applyUpdate quiz sent
                   in (Inr updated, map (\<lambda>d. if doc_id d = ident then updated else d) docs))
             else (Inl (ServerError ''Server error''), docs)))"

section \<open>Worked examples\<close>

text \<open>
  A published, active quiz of two single-choice questions worth one point each, open from
  time 1000 to time 2000, with the default single attempt and the default passing score
  of 70; a store holding it; and the same store after user 7 has started attempt number 1
  at time 1500.
\<close>

definition exQuestion1 :: question where
  "exQuestion1 = \<lparr>q_id = 11, q_question = ''Pick A'', q_type = SingleChoice,
     q_options = [\<lparr>opt_text = ''A'', isCorrect = True\<rparr>, \<lparr>opt_text = ''B'', isCorrect = False\<rparr>],
     q_correctAnswer = Str ''A'', q_points = 1\<rparr>"

definition exQuestion2 :: question where
  "exQuestion2 = \<lparr>q_id = 12, q_question = ''Pick D'', q_type = SingleChoice,
     q_options = [\<lparr>opt_text = ''C'', isCorrect = False\<rparr>, \<lparr>opt_text = ''D'', isCorrect = True\<rparr>],
     q_correctAnswer = Str ''D'', q_points = 1\<rparr>"

definition exQuiz :: quiz where
  "exQuiz = \<lparr>quiz_id = 3, title = ''Quiz'', description = None, courseId = 2, moduleId = None,
     duration = 30, passingScore = 70, maxAttempts = 1, instructions = None, tags = [],
     availableFrom = 1000, availableUntil = Some 2000, questions = [exQuestion1, exQuestion2],
     isPublished = True, isActive = True\<rparr>"

definition exStore :: store where
  "exStore = \<lparr>quizzes = [exQuiz], attempts = [],
     nextId = 10\<rparr>"

definition exAttempt :: quizAttempt where
  "exAttempt = \<lparr>att_id = 10, att_quizId = 3, att_userId = 7, att_courseId = 2,
     answers = [], score = 0, att_totalPoints = 0, percentage = 0, isPassed = False,
     timeStarted = 1500, timeCompleted = None, timeSpent = 0, attemptNumber = 1,
     status = InProgress, ipAddress = ''ip'', userAgent = ''ua''\<rparr>"

definition exStoreStarted :: store where
  "exStoreStarted = exStore\<lparr>attempts := [exAttempt], nextId := 11\<rparr>"

definition exInfo :: quizInfo where
  "exInfo = \<lparr>qi_title = ''Quiz'', qi_duration = 30, qi_totalQuestions = 2, qi_passingScore = 70\<rparr>"

text \<open>
  A store in which the quiz allows two attempts and four attempts are recorded: one
  completed by user 7 on quiz 3, one completed and one in progress by user 8 on quiz 3,
  and one completed by user 7 on another quiz.
\<close>

definition exQuizTwo :: quiz where
  "exQuizTwo = exQuiz\<lparr>maxAttempts := 2\<rparr>"

definition exStoreBusy :: store where
  "exStoreBusy =
     \<lparr>quizzes = [exQuizTwo],
      attempts = [exAttempt\<lparr>att_id := 31, status := Completed\<rparr>,
                  exAttempt\<lparr>att_id := 32, att_userId := 8, status := Completed\<rparr>,
                  exAttempt\<lparr>att_id := 33, att_quizId := 5, status := Completed\<rparr>,
                  exAttempt\<lparr>att_id := 34, att_userId := 8, attemptNumber := 2\<rparr>],
      nextId = 40\<rparr>"

text \<open>
  Submissions: one right and one wrong answer; two answers to the same question; an
  answer to a question the quiz does not have.
\<close>

definition exAnswers :: "answer list" where
  "exAnswers = [\<lparr>questionId = 11, selectedOptions = Arr [Str ''A''], shortAnswer = Undefined,
                  timeTaken = Some 5\<rparr>,
                \<lparr>questionId = 12, selectedOptions = Arr [Str ''C''], shortAnswer = Undefined,
                  timeTaken = None\<rparr>]"

definition exAnswersDup :: "answer list" where
  "exAnswersDup = [\<lparr>questionId = 11, selectedOptions = Arr [Str ''A''], shortAnswer = Undefined,
                     timeTaken = None\<rparr>,
                   \<lparr>questionId = 11, selectedOptions = Arr [Str ''B''], shortAnswer = Undefined,
                     timeTaken = None\<rparr>]"

definition exAnswerUnmatched :: answer where
  "exAnswerUnmatched = \<lparr>questionId = 99, selectedOptions = Arr [Str ''A''], shortAnswer = Undefined,
     timeTaken = None\<rparr>"

text \<open>
  Scored answers as the submit loop stores them, and two attempts holding them: one with
  two answers to question 11, one with answers to questions 11 and 12.
\<close>

definition exScored :: "bool \<Rightarrow> nat \<Rightarrow> string \<Rightarrow> attemptAnswer" where
  "exScored c qid opt = \<lparr>aa_questionId = qid, aa_selectedOptions = Arr [Str opt],
     aa_shortAnswer = Undefined, aa_isCorrect = c, pointsEarned = (if c then 1 else 0),
     aa_timeTaken = 0\<rparr>"

definition exAttemptDup :: quizAttempt where
  "exAttemptDup = exAttempt\<lparr>answers := [exScored True 11 ''A'', exScored False 11 ''B''],
     percentage := 100\<rparr>"

definition exAttemptHalf :: quizAttempt where
  "exAttemptHalf = exAttempt\<lparr>answers := [exScored True 11 ''A'', exScored False 12 ''C''],
     percentage := 50\<rparr>"

text \<open>
  A true-false question whose correct answer was stored as the boolean \<^verbatim>\<open>true\<close>, the
  quiz reduced to that question, and an answer to it; a short-answer question with a
  string as correct answer, the quiz reduced to it, and an answer whose \<^verbatim>\<open>shortAnswer\<close> is
  the number 5; an answer to question 11 whose \<^verbatim>\<open>selectedOptions\<close> is the string "A".
\<close>

definition exQuestionTF :: question where
  "exQuestionTF = \<lparr>q_id = 13, q_question = ''Is it so?'', q_type = TrueFalse,
     q_options = [], q_correctAnswer = Bool True, q_points = 1\<rparr>"

definition exStoreTF :: store where
  "exStoreTF = exStoreStarted\<lparr>quizzes := [exQuiz\<lparr>questions := [exQuestionTF]\<rparr>]\<rparr>"

definition exAnswerTF :: answer where
  "exAnswerTF = \<lparr>questionId = 13, selectedOptions = Val Undefined, shortAnswer = Str ''true'',
     timeTaken = None\<rparr>"

definition exQuestionSA :: question where
  "exQuestionSA = \<lparr>q_id = 16, q_question = ''Capital of France?'', q_type = ShortAnswer,
     q_options = [], q_correctAnswer = Str ''Paris'', q_points = 1\<rparr>"

definition exStoreSA :: store where
  "exStoreSA = exStoreStarted\<lparr>quizzes := [exQuiz\<lparr>questions := [exQuestionSA]\<rparr>]\<rparr>"

definition exAnswerNumber :: answer where
  "exAnswerNumber = \<lparr>questionId = 16, selectedOptions = Val Undefined, shortAnswer = Num 5,
     timeTaken = None\<rparr>"

definition exAnswerText :: answer where
  "exAnswerText = \<lparr>questionId = 11, selectedOptions = Val (Str ''A''), shortAnswer = Undefined,
     timeTaken = None\<rparr>"

text \<open>
  A multiple-choice question with correct options A and B and no \<^verbatim>\<open>correctAnswer\<close>
  (the schema does not require one for this type); a multiple-choice question with a
  \<^verbatim>\<open>correctAnswer\<close> but no option marked correct; an unpublished quiz 4 over given
  questions.
\<close>

definition exQuestionAB :: question where
  "exQuestionAB = \<lparr>q_id = 14, q_question = ''Pick A and B'', q_type = MultipleChoice,
     q_options = [\<lparr>opt_text = ''A'', isCorrect = True\<rparr>, \<lparr>opt_text = ''B'', isCorrect = True\<rparr>,
                  \<lparr>opt_text = ''C'', isCorrect = False\<rparr>],
     q_correctAnswer = Undefined, q_points = 2\<rparr>"

definition exSelect :: "string list \<Rightarrow> answer" where
  "exSelect xs = \<lparr>questionId = 14, selectedOptions = Arr (map Str xs), shortAnswer = Undefined,
     timeTaken = None\<rparr>"

definition exQuestionNoneCorrect :: question where
  "exQuestionNoneCorrect = \<lparr>q_id = 15, q_question = ''Pick one'', q_type = MultipleChoice,
     q_options = [\<lparr>opt_text = ''A'', isCorrect = False\<rparr>, \<lparr>opt_text = ''B'', isCorrect = False\<rparr>],
     q_correctAnswer = Str ''A'', q_points = 1\<rparr>"

definition exDraft :: "question list \<Rightarrow> quiz" where
  "exDraft qs = exQuiz\<lparr>quiz_id := 4, questions := qs, isPublished := False\<rparr>"

definition exStoreDraft :: "question list \<Rightarrow> store" where
  "exStoreDraft qs = exStore\<lparr>quizzes := [exDraft qs]\<rparr>"

text \<open>
  A quiz document of \<^verbatim>\<open>models/Quiz.js\<close> with two questions of one point each and the
  totals its creation stored, its instructor, the update body with no key, and the body
  that replaces the questions by the first one.
\<close>

definition exDocQuestion :: "string \<Rightarrow> nat \<Rightarrow> questionDoc" where
  "exDocQuestion txt n = \<lparr>d_text = txt, d_type = DocMultipleChoice, d_points = 1,
     d_options = [\<lparr>opt_text = ''A'', isCorrect = True\<rparr>, \<lparr>opt_text = ''B'', isCorrect = False\<rparr>],
     d_correctAnswer = None, d_explanation = None, d_order = n\<rparr>"

definition exDoc :: quizDoc where
  "exDoc = \<lparr>doc_id = 20, d_title = ''Quiz'', d_description = None, course = 2, d_module = None,
     instructor = 9, d_duration = 60, d_passingScore = 70, d_maxAttempts = 1, d_isActive = False,
     shuffleQuestions = False, showResults = True, scheduledStart = None, scheduledEnd = None,
     d_questions = [exDocQuestion ''First'' 0, exDocQuestion ''Second'' 1],
     totalQuestions = 2, totalPoints = 2, averageScore = 0, totalAttempts = 0,
     enrolledStudents = []\<rparr>"

definition exInstructor :: reqUser where
  "exInstructor = \<lparr>role = ''instructor'', user_id = 9\<rparr>"

definition emptyUpdate :: updateBody where
  "emptyUpdate = \<lparr>u_title = None, u_description = None, u_course = None, u_module = None,
     u_instructor = None, u_duration = None, u_passingScore = None, u_maxAttempts = None,
     u_isActive = None, u_shuffleQuestions = None, u_showResults = None,
     u_scheduledStart = None, u_scheduledEnd = None, u_questions = None,
     u_totalQuestions = None, u_totalPoints = None, u_averageScore = None,
     u_totalAttempts = None, u_enrolledStudents = None\<rparr>"

definition exOneQuestion :: updateBody where
  "exOneQuestion = emptyUpdate\<lparr>u_questions := Some [exDocQuestion ''First'' 0]\<rparr>"

section \<open>Properties\<close>

subsection \<open>Sums and searches\<close>

lemma foldl_add_sum_list:
  "foldl (\<lambda>total x. total + f x) (n::nat) xs = n + sum_list (map f xs)"
  by (induction xs arbitrary: n) simp_all

lemma earnedPoints_sum: "earnedPoints as = sum_list (map pointsEarned as)"
  by (simp add: earnedPoints_def foldl_add_sum_list)

lemma questionPoints_sum: "questionPoints qs = sum_list (map q_points qs)"
  by (simp add: questionPoints_def foldl_add_sum_list)

lemma find_self_distinct:
  "distinct (map f xs) \<Longrightarrow> a \<in> set xs \<Longrightarrow> List.find (\<lambda>x. f x = f a) xs = Some a"
  by (induction xs) auto

lemma find_map_preserved:
  "(\<And>x. P (f x) = P x) \<Longrightarrow> List.find P (map f xs) = map_option f (List.find P xs)"
  by (induction xs) simp_all

lemma find_Some_set: "List.find P xs = Some y \<Longrightarrow> y \<in> set xs \<and> P y"
  by (induction xs) (auto split: if_splits)

lemma length_filter_conj_le:
  "length (filter (\<lambda>x. P x \<and> Q x) xs) \<le> length (filter P xs)"
  by (induction xs) auto

lemma mathRound_of_int: "mathRound (of_int k) = k"
  unfolding mathRound_def by (rule floor_unique) simp_all

lemma mathRound_100: "mathRound 100 = 100"
  using mathRound_of_int [of 100] by simp

subsection \<open>The worked examples, evaluated\<close>

lemma exStore_findQuiz: "findQuizById exStore 3 = Some exQuiz"
  by code_simp

lemma exStoreStarted_findQuiz: "findQuizById exStoreStarted 3 = Some exQuiz"
  by code_simp

lemma exStore_start:
  "startQuizAttempt exStore 1500 3 7 ''ip'' ''ua'' = (Inr (Started exAttempt exInfo), exStoreStarted)"
  by code_simp

lemma exStoreStarted_inProgress: "findInProgress exStoreStarted 3 7 = Some exAttempt"
  by code_simp

lemma exStoreStarted_start:
  "startQuizAttempt exStoreStarted 1501 3 7 ''ip'' ''ua''
     = (Inl (BadRequest ''Maximum attempts reached for this quiz''), exStoreStarted)"
  by code_simp

lemma exStoreBusy_findQuiz: "findQuizById exStoreBusy 3 = Some exQuizTwo"
  by code_simp

lemma exStoreBusy_start:
  "startQuizAttempt exStoreBusy 1500 3 7 ''ip'' ''ua''
     = (Inr (Started (exAttempt\<lparr>att_id := 40, attemptNumber := 2\<rparr>) exInfo),
        exStoreBusy\<lparr>attempts := attempts exStoreBusy
                                   @ [exAttempt\<lparr>att_id := 40, attemptNumber := 2\<rparr>],
                     nextId := 41\<rparr>)"
  by code_simp

subsection \<open>Derived status\<close>

text \<open>
  Claim C8. The derived status of a quiz follows the precedence disabled, draft,
  scheduled, expired, active: it is disabled exactly when the quiz is inactive; draft
  exactly when it is active and unpublished; scheduled exactly when it is active,
  published and the current time is before \<^verbatim>\<open>availableFrom\<close>; expired exactly when it is
  active, published, not before \<^verbatim>\<open>availableFrom\<close>, and \<^verbatim>\<open>availableUntil\<close> is set and
  passed; active in every other case. So an inactive quiz is disabled whatever its
  publication flag and dates, and an active unpublished quiz is draft whatever its dates.
\<close>

theorem getQuizStatus_precedence:
  "(getQuizStatus now qz = Disabled \<longleftrightarrow> \<not> isActive qz) \<and>
   (getQuizStatus now qz = Draft \<longleftrightarrow> isActive qz \<and> \<not> isPublished qz) \<and>
   (getQuizStatus now qz = Scheduled \<longleftrightarrow>
      isActive qz \<and> isPublished qz \<and> now < availableFrom qz) \<and>
   (getQuizStatus now qz = Expired \<longleftrightarrow>
      isActive qz \<and> isPublished qz \<and> \<not> now < availableFrom qz \<and>
      (\<exists>u. availableUntil qz = Some u \<and> u < now)) \<and>
   (getQuizStatus now qz = Active \<longleftrightarrow>
      isActive qz \<and> isPublished qz \<and> \<not> now < availableFrom qz \<and>
      \<not> (\<exists>u. availableUntil qz = Some u \<and> u < now))"
  by (auto simp: getQuizStatus_def split: option.splits)

text \<open>
  Claim C8, at concrete quizzes: one per status, the draft one both inside and before
  its window, and an active one without end date.
\<close>

theorem getQuizStatus_precedence_witness:
  "getQuizStatus 1500 (exQuiz\<lparr>isActive := False\<rparr>) = Disabled \<and>
   getQuizStatus 1500 (exQuiz\<lparr>isPublished := False\<rparr>) = Draft \<and>
   getQuizStatus 5 (exQuiz\<lparr>isPublished := False\<rparr>) = Draft \<and>
   getQuizStatus 5 exQuiz = Scheduled \<and>
   getQuizStatus 5000 exQuiz = Expired \<and>
   getQuizStatus 1500 exQuiz = Active \<and>
   getQuizStatus 5000 (exQuiz\<lparr>availableUntil := None\<rparr>) = Active"
  using getQuizStatus_precedence [of 1500 "exQuiz\<lparr>isActive := False\<rparr>"]
        getQuizStatus_precedence [of 1500 "exQuiz\<lparr>isPublished := False\<rparr>"]
        getQuizStatus_precedence [of 5 "exQuiz\<lparr>isPublished := False\<rparr>"]
        getQuizStatus_precedence [of 5 exQuiz]
        getQuizStatus_precedence [of 5000 exQuiz]
        getQuizStatus_precedence [of 1500 exQuiz]
        getQuizStatus_precedence [of 5000 "exQuiz\<lparr>availableUntil := None\<rparr>"]
  by (simp add: exQuiz_def)

subsection \<open>The pre-save hook of an attempt\<close>

lemma totalPossiblePoints_distinct:
  assumes "distinct (map aa_questionId as)"
  shows "totalPossiblePoints as = sum_list (map pointsEarned as)"
proof -
  have "map (\<lambda>a. case List.find (\<lambda>x. aa_questionId x = aa_questionId a) as of
                    Some question \<Rightarrow> pointsEarned question | None \<Rightarrow> 0) as
        = map pointsEarned as"
    by (rule map_cong) (simp_all add: find_self_distinct [OF assms])
  then have "sum_list (map (\<lambda>a. case List.find (\<lambda>x. aa_questionId x = aa_questionId a) as of
                    Some question \<Rightarrow> pointsEarned question | None \<Rightarrow> 0) as)
        = sum_list (map pointsEarned as)"
    by (rule arg_cong)
  then show ?thesis
    unfolding totalPossiblePoints_def foldl_add_sum_list by simp
qed

lemma attemptPreSave_totalPoints:
  "answers a \<noteq> [] \<Longrightarrow> att_totalPoints (attemptPreSave a) = earnedPoints (answers a)"
  by (simp add: attemptPreSave_def Let_def split: option.splits)

lemma attemptPreSave_percentage:
  "answers a \<noteq> [] \<Longrightarrow> 0 < totalPossiblePoints (answers a) \<Longrightarrow>
   percentage (attemptPreSave a) =
     of_int (mathRound (of_nat (earnedPoints (answers a)) / of_nat (totalPossiblePoints (answers a)) * 100))"
  by (simp add: attemptPreSave_def Let_def split: option.splits)

lemma attemptPreSave_fresh:
  "answers a = [] \<Longrightarrow> timeCompleted a = None \<Longrightarrow> attemptPreSave a = a"
  by (simp add: attemptPreSave_def)

lemma attemptPreSave_keeps:
  "att_id (attemptPreSave a) = att_id a"
  "status (attemptPreSave a) = status a"
  "timeCompleted (attemptPreSave a) = timeCompleted a"
  "answers (attemptPreSave a) = answers a"
  "score (attemptPreSave a) = score a"
  "isPassed (attemptPreSave a) = isPassed a"
  "attemptNumber (attemptPreSave a) = attemptNumber a"
  by (simp_all add: attemptPreSave_def Let_def split: option.splits)

text \<open>
  Claim C9 as stated fails when two stored answers carry the same question id: the hook
  looks each answer up by question id and takes the points of the first match. For the
  answers (question 11, one point) and (question 11, no point) the earned sum is 1, the
  "total possible points" is 2 and the saved percentage is 50, not 100. The submit
  operation produces exactly this attempt from two answers to question 11.
\<close>

theorem attemptPreSave_duplicate_counterexample:
  "answers exAttemptDup \<noteq> [] \<and>
   sum_list (map pointsEarned (answers exAttemptDup)) = 1 \<and>
   totalPossiblePoints (answers exAttemptDup) = 2 \<and>
   percentage (attemptPreSave exAttemptDup) = 50 \<and>
   (case submitQuizAttempt exStoreStarted 1600 3 7 (Some exAnswersDup) of
      (Inr r, st') \<Rightarrow> answers (data r) = answers exAttemptDup \<and> percentage (data r) = 50
    | (Inl e, st') \<Rightarrow> False)"
  by code_simp

text \<open>
  Claim C9, amended. Whenever an attempt with a non-empty answer list is saved, the
  stored \<^verbatim>\<open>totalPoints\<close> is the sum of \<^verbatim>\<open>pointsEarned\<close> over its answers; when the answers
  carry pairwise distinct question ids, the hook's "total possible points" is that same
  sum, so the saved percentage is 100 whenever the earned sum is positive, whatever
  percentage was set before the save.
\<close>

theorem attemptPreSave_distinct_answers:
  "answers a \<noteq> [] \<Longrightarrow>
   att_totalPoints (attemptPreSave a) = sum_list (map pointsEarned (answers a)) \<and>
   (distinct (map aa_questionId (answers a)) \<longrightarrow>
      totalPossiblePoints (answers a) = sum_list (map pointsEarned (answers a)) \<and>
      (0 < sum_list (map pointsEarned (answers a)) \<longrightarrow> percentage (attemptPreSave a) = 100))"
proof (intro conjI impI)
  assume ne: "answers a \<noteq> []"
  show "att_totalPoints (attemptPreSave a) = sum_list (map pointsEarned (answers a))"
    using attemptPreSave_totalPoints [OF ne] by (simp add: earnedPoints_sum)
next
  assume d: "distinct (map aa_questionId (answers a))"
  show "totalPossiblePoints (answers a) = sum_list (map pointsEarned (answers a))"
    by (rule totalPossiblePoints_distinct [OF d])
next
  assume ne: "answers a \<noteq> []"
    and d: "distinct (map aa_questionId (answers a))"
    and pos: "0 < sum_list (map pointsEarned (answers a))"
  have poss: "totalPossiblePoints (answers a) = earnedPoints (answers a)"
    by (simp add: totalPossiblePoints_distinct [OF d] earnedPoints_sum)
  have "0 < earnedPoints (answers a)" using pos by (simp add: earnedPoints_sum)
  then show "percentage (attemptPreSave a) = 100"
    using attemptPreSave_percentage [OF ne] poss by (simp add: mathRound_100)
qed

text \<open>
  Claim C9, amended, at the attempt with one right and one wrong answer whose percentage
  was 50 before the save.
\<close>

theorem attemptPreSave_distinct_answers_witness:
  "answers exAttemptHalf \<noteq> [] \<and> distinct (map aa_questionId (answers exAttemptHalf)) \<and>
   0 < sum_list (map pointsEarned (answers exAttemptHalf)) \<and>
   percentage exAttemptHalf = 50 \<and>
   att_totalPoints (attemptPreSave exAttemptHalf) = 1 \<and>
   totalPossiblePoints (answers exAttemptHalf) = 1 \<and>
   percentage (attemptPreSave exAttemptHalf) = 100"
proof -
  have ne: "answers exAttemptHalf \<noteq> []" by code_simp
  have d: "distinct (map aa_questionId (answers exAttemptHalf))" by code_simp
  have s: "sum_list (map pointsEarned (answers exAttemptHalf)) = 1" by code_simp
  have p: "percentage exAttemptHalf = 50" by code_simp
  from attemptPreSave_distinct_answers [OF ne] ne d s p show ?thesis by simp
qed

subsection \<open>Starting an attempt\<close>

lemma findInProgress_None_iff:
  "findInProgress st quizId userId = None \<longleftrightarrow>
   list_all (\<lambda>a. \<not> (att_quizId a = quizId \<and> att_userId a = userId \<and> status a = InProgress))
     (attempts st)"
  by (auto simp: findInProgress_def find_None_iff list_all_iff)

lemma startQuizAttempt_requires_active_published:
  "startQuizAttempt st now quizId userId ip ua = (Inr r, st') \<Longrightarrow>
   \<exists>qz. findQuizById st quizId = Some qz \<and> isActive qz \<and> isPublished qz"
  by (auto simp: startQuizAttempt_def Let_def split: option.splits if_splits prod.splits)

lemma startQuizAttempt_resumes_below_limit:
  "findQuizById st quizId = Some qz \<Longrightarrow> isActive qz \<Longrightarrow> isPublished qz \<Longrightarrow>
   length (findAttempts st quizId userId) < maxAttempts qz \<Longrightarrow>
   findInProgress st quizId userId = Some a \<Longrightarrow>
   startQuizAttempt st now quizId userId ip ua = (Inr (Resumed a), st)"
  by (simp add: startQuizAttempt_def)

text \<open>
  Claim C5. For a stored quiz, counting over the attempts of the store: when the
  attempts of this user for this quiz that are completed or in progress number
  \<^verbatim>\<open>maxAttempts\<close>, start returns an error and leaves the store as it was; whenever start
  creates an attempt, the attempt belongs to this user and quiz, is in progress, carries
  as its number the count of the stored attempts of this user for this quiz plus one, and
  is the one record added to the store; and start does create an attempt when the quiz is
  active and published, that count is below the limit and none of these attempts is in
  progress.
\<close>

theorem startQuizAttempt_limit_and_numbering:
  "findQuizById st quizId = Some qz \<Longrightarrow>
   (length (filter (\<lambda>a. (att_quizId a = quizId \<and> att_userId a = userId) \<and>
                        (status a = Completed \<or> status a = InProgress)) (attempts st))
      = maxAttempts qz \<longrightarrow>
      (\<exists>e. startQuizAttempt st now quizId userId ip ua = (Inl e, st))) \<and>
   (\<forall>a info st'. startQuizAttempt st now quizId userId ip ua = (Inr (Started a info), st') \<longrightarrow>
      attemptNumber a
        = length (filter (\<lambda>a. att_quizId a = quizId \<and> att_userId a = userId) (attempts st)) + 1 \<and>
      att_quizId a = quizId \<and> att_userId a = userId \<and> status a = InProgress \<and>
      attempts st' = attempts st @ [a]) \<and>
   (isActive qz \<and> isPublished qz \<and>
    length (filter (\<lambda>a. att_quizId a = quizId \<and> att_userId a = userId) (attempts st))
      < maxAttempts qz \<and>
    list_all (\<lambda>a. \<not> (att_quizId a = quizId \<and> att_userId a = userId \<and> status a = InProgress))
      (attempts st) \<longrightarrow>
      (\<exists>a info st'. startQuizAttempt st now quizId userId ip ua = (Inr (Started a info), st')))"
proof (intro conjI impI allI)
  assume q: "findQuizById st quizId = Some qz"
    and full: "length (filter (\<lambda>a. (att_quizId a = quizId \<and> att_userId a = userId) \<and>
                        (status a = Completed \<or> status a = InProgress)) (attempts st))
                 = maxAttempts qz"
  have "maxAttempts qz \<le> length (findAttempts st quizId userId)"
    unfolding findAttempts_def
    using length_filter_conj_le
            [of "\<lambda>a. att_quizId a = quizId \<and> att_userId a = userId"
                "\<lambda>a. status a = Completed \<or> status a = InProgress" "attempts st"] full
    by simp
  then show "\<exists>e. startQuizAttempt st now quizId userId ip ua = (Inl e, st)"
    using q by (simp add: startQuizAttempt_def)
next
  fix a info st'
  assume q: "findQuizById st quizId = Some qz"
    and r: "startQuizAttempt st now quizId userId ip ua = (Inr (Started a info), st')"
  from r q have a: "a = fst (createAttempt st now quizId userId (courseId qz)
                               (length (findAttempts st quizId userId) + 1) ip ua)"
    and s: "st' = snd (createAttempt st now quizId userId (courseId qz)
                               (length (findAttempts st quizId userId) + 1) ip ua)"
    by (auto simp: startQuizAttempt_def Let_def split: if_splits option.splits prod.splits)
  from a show "attemptNumber a
        = length (filter (\<lambda>a. att_quizId a = quizId \<and> att_userId a = userId) (attempts st)) + 1"
    by (simp add: createAttempt_def attemptPreSave_fresh findAttempts_def Let_def)
  from a show "att_quizId a = quizId" "att_userId a = userId" "status a = InProgress"
    by (simp_all add: createAttempt_def attemptPreSave_fresh Let_def)
  from a s show "attempts st' = attempts st @ [a]"
    by (simp add: createAttempt_def attemptPreSave_fresh Let_def)
next
  assume q: "findQuizById st quizId = Some qz"
    and ok: "isActive qz \<and> isPublished qz \<and>
             length (filter (\<lambda>a. att_quizId a = quizId \<and> att_userId a = userId) (attempts st))
               < maxAttempts qz \<and>
             list_all (\<lambda>a. \<not> (att_quizId a = quizId \<and> att_userId a = userId \<and>
                               status a = InProgress)) (attempts st)"
  then have "findInProgress st quizId userId = None"
    by (simp add: findInProgress_None_iff)
  with q ok
  show "\<exists>a info st'. startQuizAttempt st now quizId userId ip ua = (Inr (Started a info), st')"
    by (simp add: startQuizAttempt_def createAttempt_def findAttempts_def Let_def)
qed

text \<open>
  Claim C5, at the store with four attempts: user 8 has two attempts on quiz 3, the
  limit, and the start fails and changes nothing; user 7 has one attempt on quiz 3 (and
  one on another quiz), and the created attempt has number 2.
\<close>

theorem startQuizAttempt_limit_and_numbering_witness:
  "findQuizById exStoreBusy 3 = Some exQuizTwo \<and> maxAttempts exQuizTwo = 2 \<and>
   length (attempts exStoreBusy) = 4 \<and>
   length (filter (\<lambda>a. (att_quizId a = 3 \<and> att_userId a = 8) \<and>
                        (status a = Completed \<or> status a = InProgress)) (attempts exStoreBusy)) = 2 \<and>
   (\<exists>e. startQuizAttempt exStoreBusy 1501 3 8 ''ip'' ''ua'' = (Inl e, exStoreBusy)) \<and>
   length (filter (\<lambda>a. att_quizId a = 3 \<and> att_userId a = 7) (attempts exStoreBusy)) = 1 \<and>
   (\<exists>a info st'. startQuizAttempt exStoreBusy 1500 3 7 ''ip'' ''ua'' = (Inr (Started a info), st') \<and>
      attemptNumber a = 2 \<and> att_userId a = 7 \<and> length (attempts st') = 5)"
proof -
  have m: "maxAttempts exQuizTwo = 2" and n: "length (attempts exStoreBusy) = 4"
    by code_simp+
  have full: "length (filter (\<lambda>a. (att_quizId a = 3 \<and> att_userId a = 8) \<and>
                (status a = Completed \<or> status a = InProgress)) (attempts exStoreBusy)) = 2"
    by code_simp
  have one: "length (filter (\<lambda>a. att_quizId a = 3 \<and> att_userId a = 7) (attempts exStoreBusy)) = 1"
    by code_simp
  note limit = startQuizAttempt_limit_and_numbering
                 [OF exStoreBusy_findQuiz, of 8 1501 "''ip''" "''ua''"]
  from limit full m
  have fails: "\<exists>e. startQuizAttempt exStoreBusy 1501 3 8 ''ip'' ''ua'' = (Inl e, exStoreBusy)"
    by simp
  note fresh = startQuizAttempt_limit_and_numbering
                 [OF exStoreBusy_findQuiz, of 7 1500 "''ip''" "''ua''"]
  let ?a = "exAttempt\<lparr>att_id := 40, attemptNumber := 2\<rparr>"
  let ?st = "exStoreBusy\<lparr>attempts := attempts exStoreBusy @ [?a], nextId := 41\<rparr>"
  from fresh exStoreBusy_start
  have "attemptNumber ?a
          = length (filter (\<lambda>a. att_quizId a = 3 \<and> att_userId a = 7) (attempts exStoreBusy)) + 1 \<and>
        att_userId ?a = 7 \<and> attempts ?st = attempts exStoreBusy @ [?a]"
    by blast
  then have "attemptNumber ?a = 2 \<and> att_userId ?a = 7 \<and> length (attempts ?st) = 5"
    using one n by simp
  with exStoreBusy_start
  have "\<exists>a info st'. startQuizAttempt exStoreBusy 1500 3 7 ''ip'' ''ua'' = (Inr (Started a info), st') \<and>
          attemptNumber a = 2 \<and> att_userId a = 7 \<and> length (attempts st') = 5"
    by blast
  with m n full one fails exStoreBusy_findQuiz show ?thesis
    by blast
qed

text \<open>
  Claim C3 says that start fails outside the availability window. The controller tests
  \<^verbatim>\<open>isActive\<close> and \<^verbatim>\<open>isPublished\<close> only (\<open>startQuizAttempt_requires_active_published\<close>);
  the window test that \<^verbatim>\<open>getQuiz\<close> makes under the same message is missing here. At the
  example quiz, open from 1000 to 2000, a start at time 5 (status scheduled) and a start
  at time 5000 (status expired) both create an in-progress attempt.
\<close>

theorem start_outside_window_creates_attempt:
  "getQuizStatus 5 exQuiz = Scheduled \<and>
   startQuizAttempt exStore 5 3 7 ''ip'' ''ua''
     = (Inr (Started (exAttempt\<lparr>timeStarted := 5\<rparr>) exInfo),
        exStore\<lparr>attempts := [exAttempt\<lparr>timeStarted := 5\<rparr>], nextId := 11\<rparr>) \<and>
   getQuizStatus 5000 exQuiz = Expired \<and>
   startQuizAttempt exStore 5000 3 7 ''ip'' ''ua''
     = (Inr (Started (exAttempt\<lparr>timeStarted := 5000\<rparr>) exInfo),
        exStore\<lparr>attempts := [exAttempt\<lparr>timeStarted := 5000\<rparr>], nextId := 11\<rparr>)"
  by code_simp

text \<open>
  Claim C3, the inputs of the evaluation: the quiz is active and published, its window is
  1000 to 2000, and both starts return a created attempt.
\<close>

theorem start_outside_window_creates_attempt_witness:
  "isActive exQuiz \<and> isPublished exQuiz \<and> availableFrom exQuiz = 1000 \<and>
   availableUntil exQuiz = Some 2000 \<and>
   fst (startQuizAttempt exStore 5 3 7 ''ip'' ''ua'')
     = Inr (Started (exAttempt\<lparr>timeStarted := 5\<rparr>) exInfo) \<and>
   fst (startQuizAttempt exStore 5000 3 7 ''ip'' ''ua'')
     = Inr (Started (exAttempt\<lparr>timeStarted := 5000\<rparr>) exInfo)"
  using start_outside_window_creates_attempt by (simp add: exQuiz_def)

text \<open>
  Claim C4 says that a second start returns the in-progress attempt. The controller
  tests the attempt limit before it looks for an in-progress attempt, so the resume
  branch is reached only below the limit (\<open>startQuizAttempt_resumes_below_limit\<close>). With
  the default limit of one attempt, the first start creates attempt 10, which is then in
  progress, and the second start answers 400 instead of returning it.
\<close>

theorem second_start_hits_attempt_limit:
  "startQuizAttempt exStore 1500 3 7 ''ip'' ''ua''
     = (Inr (Started exAttempt exInfo), exStoreStarted) \<and>
   findInProgress exStoreStarted 3 7 = Some exAttempt \<and>
   startQuizAttempt exStoreStarted 1501 3 7 ''ip'' ''ua''
     = (Inl (BadRequest ''Maximum attempts reached for this quiz''), exStoreStarted)"
  by code_simp

text \<open>
  Claim C4, the inputs of the evaluation: the quiz is active and published with a limit
  of one attempt, the first start returns the in-progress attempt 10, the second an
  error.
\<close>

theorem second_start_hits_attempt_limit_witness:
  "isActive exQuiz \<and> isPublished exQuiz \<and> maxAttempts exQuiz = 1 \<and>
   status exAttempt = InProgress \<and>
   fst (startQuizAttempt exStore 1500 3 7 ''ip'' ''ua'') = Inr (Started exAttempt exInfo) \<and>
   fst (startQuizAttempt exStoreStarted 1501 3 7 ''ip'' ''ua'')
     = Inl (BadRequest ''Maximum attempts reached for this quiz'')"
  using second_start_hits_attempt_limit by (simp add: exQuiz_def exAttempt_def)

subsection \<open>Scoring a choice question\<close>

lemma choiceCorrect_distinct:
  assumes "selectedOptions a = Arr (map Str sel)" "distinct sel" "distinct (correctOptions q)"
  shows "choiceCorrect q a = Inr (set sel = set (correctOptions q))"
proof -
  have sub: "list_all (\<lambda>opt. opt \<in> set (map Str (correctOptions q))) (map Str sel)
               \<longleftrightarrow> set sel \<subseteq> set (correctOptions q)"
    by (auto simp: list_all_iff)
  have "(length sel = length (correctOptions q) \<and> set sel \<subseteq> set (correctOptions q))
          \<longleftrightarrow> set sel = set (correctOptions q)"
  proof
    assume h: "length sel = length (correctOptions q) \<and> set sel \<subseteq> set (correctOptions q)"
    with assms(2,3) have "card (set sel) = card (set (correctOptions q))"
      by (simp add: distinct_card)
    with h show "set sel = set (correctOptions q)"
      by (simp add: card_subset_eq)
  next
    assume eq: "set sel = set (correctOptions q)"
    then have "length sel = length (correctOptions q)"
      using assms(2,3) by (metis distinct_card)
    with eq show "length sel = length (correctOptions q) \<and> set sel \<subseteq> set (correctOptions q)"
      by simp
  qed
  with sub assms(1) show ?thesis
    by (simp add: choiceCorrect_def orEmptyArray_def)
qed

text \<open>
  Claim C2 says that a choice answer is correct exactly when the submitted texts and the
  correct texts are equal as sets. The controller compares the lengths and tests that
  every submitted text is a correct one, which is set equality on duplicate-free lists
  only (\<open>choiceCorrect_distinct\<close>). Against the correct options A and B, the submission
  A, A is marked correct and earns the full two points, although its set of texts is not
  the correct set; B, A is correct and A alone is not, as the claim says.
\<close>

theorem choice_scoring_counts_duplicates:
  "correctOptions exQuestionAB = [''A'', ''B''] \<and>
   set [''A'', ''A''] \<noteq> set (correctOptions exQuestionAB) \<and>
   scoreAnswer exQuestionAB (exSelect [''A'', ''A'']) = Inr (True, 2) \<and>
   scoreAnswer exQuestionAB (exSelect [''B'', ''A'']) = Inr (True, 2) \<and>
   scoreAnswer exQuestionAB (exSelect [''A'']) = Inr (False, 0)"
  by code_simp

text \<open>
  Claim C2, the inputs of the evaluation: a multiple-choice question worth two points
  and the submission A, A.
\<close>

theorem choice_scoring_counts_duplicates_witness:
  "q_type exQuestionAB = MultipleChoice \<and> q_points exQuestionAB = 2 \<and>
   selectedOptions (exSelect [''A'', ''A'']) = Arr [Str ''A'', Str ''A''] \<and>
   scoreAnswer exQuestionAB (exSelect [''A'', ''A'']) = Inr (True, 2)"
proof -
  have "q_type exQuestionAB = MultipleChoice" "q_points exQuestionAB = 2"
    "selectedOptions (exSelect [''A'', ''A'']) = Arr [Str ''A'', Str ''A'']"
    by code_simp+
  with choice_scoring_counts_duplicates show ?thesis by blast
qed

subsection \<open>Submitting an attempt\<close>

text \<open>
  Claim C1 says that the percentage returned and stored is the score over the quiz's
  total points, times 100, and that \<^verbatim>\<open>isPassed\<close> holds exactly when that percentage
  reaches the passing score. The controller computes both so, but \<^verbatim>\<open>attempt.save()\<close> runs
  the pre-save hook, which replaces the percentage, and the response reads the attempt
  after the save. In the example, one of two one-point questions is answered correctly:
  the score is 1 of 2 points, yet the stored percentage and the percentage of the summary
  are 100, while \<^verbatim>\<open>isPassed\<close> is false against a passing score of 70.
\<close>

theorem submit_percentage_overwritten_on_save:
  "(case submitQuizAttempt exStoreStarted 1600 3 7 (Some exAnswers) of
      (Inr r, st') \<Rightarrow>
        score (data r) = 1 \<and> sum_totalPoints (summary r) = 2 \<and>
        percentage (data r) = 100 \<and> sum_percentage (summary r) = 100 \<and>
        \<not> isPassed (data r) \<and> \<not> sum_isPassed (summary r) \<and>
        sum_passingScore (summary r) = 70 \<and>
        attempts st' = [data r]
    | (Inl e, st') \<Rightarrow> False)"
  by code_simp

text \<open>
  Claim C1, the inputs of the evaluation: the attempt is in progress, the quiz is stored,
  its questions are worth 2 points and its passing score is 70; the submission succeeds
  with score 1, percentage 100 and \<^verbatim>\<open>isPassed\<close> false.
\<close>

theorem submit_percentage_overwritten_on_save_witness:
  "findInProgress exStoreStarted 3 7 = Some exAttempt \<and>
   findQuizById exStoreStarted 3 = Some exQuiz \<and>
   questionPoints (questions exQuiz) = 2 \<and> passingScore exQuiz = 70 \<and>
   (\<exists>r st'. submitQuizAttempt exStoreStarted 1600 3 7 (Some exAnswers) = (Inr r, st') \<and>
      score (data r) = 1 \<and> percentage (data r) = 100 \<and> \<not> isPassed (data r))"
proof -
  have q: "questionPoints (questions exQuiz) = 2" "passingScore exQuiz = 70"
    by code_simp+
  from submit_percentage_overwritten_on_save
  have "\<exists>r st'. submitQuizAttempt exStoreStarted 1600 3 7 (Some exAnswers) = (Inr r, st') \<and>
      score (data r) = 1 \<and> percentage (data r) = 100 \<and> \<not> isPassed (data r)"
    by (auto split: prod.splits sum.splits)
  with q exStoreStarted_inProgress exStoreStarted_findQuiz show ?thesis by blast
qed

text \<open>
  What submit does as claim C10 describes it: the only "not found" answers are the two
  lookups; the response depends on the stored quiz through its id, questions and passing
  score only, so the availability window, the duration, the attempt limit and the flags
  are not consulted; an answer that matches no question is skipped; and a submission of
  well-formed answers long after the window has closed completes and scores the
  attempt.
\<close>

lemma scoreAnswer_error: "scoreAnswer q a = Inl e \<Longrightarrow> e = ServerError ''Server error''"
  by (auto simp: scoreAnswer_def choiceCorrect_def optionalLowerTrim_def Let_def
           split: if_splits jsval.splits jsfield.splits sum.splits)

lemma processAnswers_error:
  "processAnswers qs as acc n = Inl e \<Longrightarrow> e = ServerError ''Server error''"
proof (induction as arbitrary: acc n)
  case Nil
  then show ?case by simp
next
  case (Cons a as)
  then show ?case
    by (auto split: option.splits sum.splits prod.splits dest: scoreAnswer_error)
qed

lemma processAnswers_skips_unmatched:
  "questionById qs (questionId a) = None \<Longrightarrow>
   processAnswers qs (a # as) acc n = processAnswers qs as acc n"
  by simp

lemma submit_not_found_iff:
  "(\<exists>msg. fst (submitQuizAttempt st now quizId userId body) = Inl (NotFound msg)) \<longleftrightarrow>
   (findInProgress st quizId userId = None \<or> findQuizById st quizId = None)"
  by (auto simp: submitQuizAttempt_def saveAttempt_def Let_def
           split: option.splits sum.splits prod.splits dest: processAnswers_error)

lemma submit_reads_questions_and_passingScore:
  assumes "\<And>q. quiz_id (f q) = quiz_id q" "\<And>q. questions (f q) = questions q"
    "\<And>q. passingScore (f q) = passingScore q"
  shows "fst (submitQuizAttempt (st\<lparr>quizzes := map f (quizzes st)\<rparr>) now quizId userId body)
         = fst (submitQuizAttempt st now quizId userId body)"
proof -
  have fq: "findQuizById (st\<lparr>quizzes := map f (quizzes st)\<rparr>) quizId
              = map_option f (findQuizById st quizId)"
    unfolding findQuizById_def using assms(1) by (simp add: find_map_preserved)
  have fa: "findInProgress (st\<lparr>quizzes := map f (quizzes st)\<rparr>) quizId userId
              = findInProgress st quizId userId"
    by (simp add: findInProgress_def)
  show ?thesis
    by (simp add: submitQuizAttempt_def fq fa saveAttempt_def Let_def assms
             split: option.splits sum.splits prod.splits)
qed

lemma submit_well_formed_example:
  "(case submitQuizAttempt exStoreStarted 999999 3 7 (Some (exAnswers @ [exAnswerUnmatched])) of
      (Inr r, st') \<Rightarrow>
        status (data r) = Completed \<and> timeCompleted (data r) = Some 999999 \<and>
        map aa_questionId (answers (data r)) = [11, 12] \<and> score (data r) = 1 \<and>
        attempts st' = [data r]
    | (Inl e, st') \<Rightarrow> False)"
  by code_simp

text \<open>
  Claim C10 says that submit fails only when the attempt or the quiz is missing and
  completes and scores every in-progress attempt. The scoring loop calls string and array
  methods on values it has not checked, and each such call that throws is answered 500
  with the attempt left in progress: a true-false question whose correct answer was
  stored as the boolean \<^verbatim>\<open>true\<close> (the path is \<^verbatim>\<open>Mixed\<close>, and publishing and the schema
  accept it) met by the answer "true"; a \<^verbatim>\<open>shortAnswer\<close> that is a number; a
  \<^verbatim>\<open>selectedOptions\<close> that is a string as long as the number of correct options; a body
  without \<^verbatim>\<open>answers\<close>.
\<close>

theorem submit_throws_on_values_without_string_methods:
  "findInProgress exStoreTF 3 7 = Some exAttempt \<and>
   findQuizById exStoreTF 3 = Some (exQuiz\<lparr>questions := [exQuestionTF]\<rparr>) \<and>
   submitQuizAttempt exStoreTF 1600 3 7 (Some [exAnswerTF])
     = (Inl (ServerError ''Server error''), exStoreTF) \<and>
   findInProgress exStoreSA 3 7 = Some exAttempt \<and>
   submitQuizAttempt exStoreSA 1600 3 7 (Some [exAnswerNumber])
     = (Inl (ServerError ''Server error''), exStoreSA) \<and>
   findInProgress exStoreStarted 3 7 = Some exAttempt \<and>
   submitQuizAttempt exStoreStarted 1600 3 7 (Some [exAnswerText])
     = (Inl (ServerError ''Server error''), exStoreStarted) \<and>
   submitQuizAttempt exStoreStarted 1600 3 7 None
     = (Inl (ServerError ''Server error''), exStoreStarted)"
  by code_simp

text \<open>
  Claim C10, the inputs of the first evaluation: the stored question passes the schema
  and the publish check, the answer is a string, the attempt is in progress; submit
  answers 500 and the stored attempt is unchanged.
\<close>

theorem submit_throws_on_values_without_string_methods_witness:
  "q_type exQuestionTF = TrueFalse \<and> q_correctAnswer exQuestionTF = Bool True \<and>
   questionSchemaValid exQuestionTF \<and> questionInvalid exQuestionTF = Inr False \<and>
   shortAnswer exAnswerTF = Str ''true'' \<and> status exAttempt = InProgress \<and>
   fst (submitQuizAttempt exStoreTF 1600 3 7 (Some [exAnswerTF]))
     = Inl (ServerError ''Server error'') \<and>
   attempts (snd (submitQuizAttempt exStoreTF 1600 3 7 (Some [exAnswerTF]))) = [exAttempt]"
proof -
  have q: "q_type exQuestionTF = TrueFalse" "q_correctAnswer exQuestionTF = Bool True"
    "questionSchemaValid exQuestionTF" "questionInvalid exQuestionTF = Inr False"
    "shortAnswer exAnswerTF = Str ''true''" "status exAttempt = InProgress"
    "attempts exStoreTF = [exAttempt]"
    by code_simp+
  from submit_throws_on_values_without_string_methods
  have "submitQuizAttempt exStoreTF 1600 3 7 (Some [exAnswerTF])
          = (Inl (ServerError ''Server error''), exStoreTF)"
    by blast
  with q show ?thesis by simp
qed

subsection \<open>Publishing a quiz\<close>

lemma invalidQuestions_none:
  "invalidQuestions qs = Inr [] \<Longrightarrow> q \<in> set qs \<Longrightarrow> questionInvalid q = Inr False"
  by (induction qs) (auto split: sum.splits if_splits)

lemma publishQuiz_success:
  assumes "publishQuiz valid st i = (Inr p, st')"
  shows "\<exists>qz. findQuizById st i = Some qz \<and> questions qz \<noteq> [] \<and>
           (\<forall>q\<in>set (questions qz). questionInvalid q = Inr False) \<and>
           st' = replaceQuiz st (qz\<lparr>isPublished := True\<rparr>)"
proof -
  from assms obtain qz where q: "findQuizById st i = Some qz"
    by (auto simp: publishQuiz_def split: option.splits)
  from assms q have ne: "questions qz \<noteq> []" and inv: "invalidQuestions (questions qz) = Inr []"
    and sv: "saveQuiz valid st (qz\<lparr>isPublished := True\<rparr>) = Inr st'"
    by (auto simp: publishQuiz_def split: if_splits sum.splits prod.splits)
  from sv have "st' = replaceQuiz st (qz\<lparr>isPublished := True\<rparr>)"
    by (auto simp: saveQuiz_def split: if_splits)
  with q ne invalidQuestions_none [OF inv] show ?thesis by blast
qed

text \<open>
  Claim C7 says that publishing fails when a choice question has no option marked
  correct, succeeds when every question is complete for its type, and then stamps a
  publish time. The controller tests \<^verbatim>\<open>correctAnswer\<close> of a choice question, not the
  \<^verbatim>\<open>isCorrect\<close> flags that scoring reads. A multiple-choice question with two options,
  none marked correct, and a \<^verbatim>\<open>correctAnswer\<close> is published; a multiple-choice question
  with three options, two of them marked correct, and no \<^verbatim>\<open>correctAnswer\<close> is refused.
  The published quiz, as stored and as returned, differs from the draft in
  \<^verbatim>\<open>isPublished\<close> alone: no publish time is kept.
\<close>

theorem publishQuiz_checks_correctAnswer_not_options:
  "filter isCorrect (q_options exQuestionNoneCorrect) = [] \<and>
   publishQuiz quizSchemaValid (exStoreDraft [exQuestionNoneCorrect]) 4
     = (Inr (Some ((exDraft [exQuestionNoneCorrect])\<lparr>isPublished := True\<rparr>)),
        exStore\<lparr>quizzes := [(exDraft [exQuestionNoneCorrect])\<lparr>isPublished := True\<rparr>]\<rparr>) \<and>
   length (q_options exQuestionAB) = 3 \<and> length (filter isCorrect (q_options exQuestionAB)) = 2 \<and>
   publishQuiz quizSchemaValid (exStoreDraft [exQuestionAB]) 4
     = (Inl (BadRequest ''Some questions are incomplete or invalid''), exStoreDraft [exQuestionAB])"
  by code_simp

text \<open>
  Claim C7, the inputs of the evaluation: the published question is multiple-choice with
  two options and a truthy \<^verbatim>\<open>correctAnswer\<close>, and the quiz passes the schema; the refused
  question passes the schema and has no \<^verbatim>\<open>correctAnswer\<close>.
\<close>

theorem publishQuiz_checks_correctAnswer_not_options_witness:
  "q_type exQuestionNoneCorrect = MultipleChoice \<and>
   length (q_options exQuestionNoneCorrect) = 2 \<and>
   truthy (q_correctAnswer exQuestionNoneCorrect) \<and>
   quizSchemaValid ((exDraft [exQuestionNoneCorrect])\<lparr>isPublished := True\<rparr>) \<and>
   q_type exQuestionAB = MultipleChoice \<and> questionSchemaValid exQuestionAB \<and>
   \<not> truthy (q_correctAnswer exQuestionAB) \<and>
   (\<exists>qz st'. publishQuiz quizSchemaValid (exStoreDraft [exQuestionNoneCorrect]) 4
                = (Inr (Some qz), st') \<and> isPublished qz \<and> quizzes st' = [qz]) \<and>
   (\<exists>e. fst (publishQuiz quizSchemaValid (exStoreDraft [exQuestionAB]) 4) = Inl e)"
proof -
  have q: "q_type exQuestionNoneCorrect = MultipleChoice"
    "length (q_options exQuestionNoneCorrect) = 2"
    "truthy (q_correctAnswer exQuestionNoneCorrect)"
    "quizSchemaValid ((exDraft [exQuestionNoneCorrect])\<lparr>isPublished := True\<rparr>)"
    "q_type exQuestionAB = MultipleChoice" "questionSchemaValid exQuestionAB"
    "\<not> truthy (q_correctAnswer exQuestionAB)"
    by code_simp+
  from publishQuiz_checks_correctAnswer_not_options
  have "(\<exists>qz st'. publishQuiz quizSchemaValid (exStoreDraft [exQuestionNoneCorrect]) 4
                = (Inr (Some qz), st') \<and> isPublished qz \<and> quizzes st' = [qz]) \<and>
   (\<exists>e. fst (publishQuiz quizSchemaValid (exStoreDraft [exQuestionAB]) 4) = Inl e)"
    by simp
  with q show ?thesis by blast
qed

subsection \<open>Stored totals of a quiz document\<close>

lemma quizPreSave_totals:
  "totalQuestions (quizPreSave d) = length (d_questions (quizPreSave d)) \<and>
   totalPoints (quizPreSave d) = sum_list (map d_points (d_questions (quizPreSave d)))"
  by (simp add: quizPreSave_def foldl_add_sum_list)

lemma exDoc_as_saved: "quizPreSave exDoc = exDoc"
  by code_simp

text \<open>
  Claim C6 says that the stored totals equal the number of questions and the sum of
  their points after create, update and add-question. The totals are paths of
  \<^verbatim>\<open>models/Quiz.js\<close>. Every save of such a document, the one of \<^verbatim>\<open>Quiz.create\<close> included,
  runs the hook and establishes the equality (\<open>quizPreSave_totals\<close>); the example document
  is as its creation stored it (\<open>exDoc_as_saved\<close>). The update of the controller of these
  documents writes through \<^verbatim>\<open>findByIdAndUpdate\<close>, which does not run the hook: when the
  instructor replaces the two questions by one, the stored and returned document has one
  question worth one point, and \<^verbatim>\<open>totalQuestions\<close> and \<^verbatim>\<open>totalPoints\<close> are still 2.
\<close>

theorem updateQuiz_leaves_totals_stale:
  "totalQuestions exDoc = length (d_questions exDoc) \<and>
   totalPoints exDoc = sum_list (map d_points (d_questions exDoc)) \<and>
   updateQuiz updateBodyValid exInstructor [exDoc] 20 exOneQuestion
     = (Inr (exDoc\<lparr>d_questions := [exDocQuestion ''First'' 0]\<rparr>),
        [exDoc\<lparr>d_questions := [exDocQuestion ''First'' 0]\<rparr>]) \<and>
   length (d_questions (exDoc\<lparr>d_questions := [exDocQuestion ''First'' 0]\<rparr>)) = 1 \<and>
   totalQuestions (exDoc\<lparr>d_questions := [exDocQuestion ''First'' 0]\<rparr>) = 2 \<and>
   sum_list (map d_points (d_questions (exDoc\<lparr>d_questions := [exDocQuestion ''First'' 0]\<rparr>))) = 1 \<and>
   totalPoints (exDoc\<lparr>d_questions := [exDocQuestion ''First'' 0]\<rparr>) = 2"
  by code_simp

text \<open>
  Claim C6, the inputs of the evaluation: the user is the quiz's instructor, the body
  has the one key \<^verbatim>\<open>questions\<close> and passes the validators, and the update succeeds.
\<close>

theorem updateQuiz_leaves_totals_stale_witness:
  "role exInstructor \<noteq> ''admin'' \<and> instructor exDoc = user_id exInstructor \<and>
   u_questions exOneQuestion = Some [exDocQuestion ''First'' 0] \<and>
   updateBodyValid (castUpdate exOneQuestion) \<and>
   (\<exists>d docs. updateQuiz updateBodyValid exInstructor [exDoc] 20 exOneQuestion = (Inr d, docs) \<and>
      length (d_questions d) = 1 \<and> totalQuestions d = 2 \<and> totalPoints d = 2 \<and> docs = [d])"
proof -
  have c: "role exInstructor \<noteq> ''admin''" "instructor exDoc = user_id exInstructor"
    "u_questions exOneQuestion = Some [exDocQuestion ''First'' 0]"
    "updateBodyValid (castUpdate exOneQuestion)"
    by code_simp+
  from updateQuiz_leaves_totals_stale
  have "\<exists>d docs. updateQuiz updateBodyValid exInstructor [exDoc] 20 exOneQuestion = (Inr d, docs) \<and>
      length (d_questions d) = 1 \<and> totalQuestions d = 2 \<and> totalPoints d = 2 \<and> docs = [d]"
    by simp
  with c show ?thesis by blast
qed

end
